theory Spec2Isabelle
  imports Complex_Main
begin

section \<open>Python numerics\<close>

text \<open>
  Python floats are modelled as reals and Python ints as \<open>int\<close> (counts and day indices
  as \<open>nat\<close>).  \<open>int(x)\<close> on a float truncates toward zero; \<open>round(x, n)\<close> rounds to
  \<open>n\<close> decimals, ties to even.
\<close>

definition py_int :: "real \<Rightarrow> int" where
  "py_int x = (if 0 \<le> x then \<lfloor>x\<rfloor> else \<lceil>x\<rceil>)"

definition round_half_even :: "real \<Rightarrow> int" where
  "round_half_even x =
     (let f = \<lfloor>x\<rfloor>; d = x - of_int f
      in if d < 1 / 2 then f else if 1 / 2 < d then f + 1 else if even f then f else f + 1)"

definition py_round :: "real \<Rightarrow> nat \<Rightarrow> real" where
  "py_round x n = of_int (round_half_even (x * 10 ^ n)) / 10 ^ n"

text \<open>The two exceptions the engine can raise, both in the demand generator.\<close>

datatype py_error = ZeroDivisionError | TypeError

section \<open>Constants of meshnet\_model.py\<close>

definition TOTAL_SUPPLY :: real where "TOTAL_SUPPLY = 1000000000"
definition BASE_EMISSION :: real where "BASE_EMISSION = 109589"
definition PID_MIN :: real where "PID_MIN = 27397"
definition PID_MAX :: real where "PID_MAX = 328767"
definition N_TARGET :: int where "N_TARGET = 10000"
definition PROTOCOL_FEE :: real where "PROTOCOL_FEE = 0.30"
definition KP_NORM :: real where "KP_NORM = 0.8"
definition KI_NORM :: real where "KI_NORM = 0.15"
definition KD_NORM :: real where "KD_NORM = 0.2"
definition SLASH_DOWNTIME :: real where "SLASH_DOWNTIME = 0.10"
definition SLASH_FRAUD :: real where "SLASH_FRAUD = 1.00"
definition PID_CADENCE :: nat where "PID_CADENCE = 14"
definition TIMESTEPS :: nat where "TIMESTEPS = 1825"
definition OPPORTUNITY_COST :: real where "OPPORTUNITY_COST = 5.0"
definition EXIT_PROB_BASE :: real where "EXIT_PROB_BASE = 0.008"
definition EXIT_PROB_VETERAN :: real where "EXIT_PROB_VETERAN = 0.003"
definition ENTRY_CAP_ABS :: int where "ENTRY_CAP_ABS = 30"

text \<open>
  The calibration file is read once at import; a missing entry falls back to the
  hard-coded default.  The file's content is a parameter of the model.
\<close>

record calibration =
  mesh_ou_kappa :: "real option"
  mesh_ou_sigma :: "real option"

definition OU_KAPPA :: "calibration \<Rightarrow> real" where
  "OU_KAPPA cal = (case mesh_ou_kappa cal of None \<Rightarrow> 2.8 | Some k \<Rightarrow> k)"

definition OU_SIGMA :: "calibration \<Rightarrow> real" where
  "OU_SIGMA cal = (case mesh_ou_sigma cal of None \<Rightarrow> 0.049 | Some s \<Rightarrow> s)"

section \<open>Scenarios\<close>

datatype shock_kind = demand_contraction | operator_poach | cost_increase

record scenario =
  demand_growth_annual :: real
  price_drift :: "real option"
  shock_month :: "int option"
  shock_type :: "shock_kind option"
  poach_rate :: "real option"
  cost_multiplier :: "real option"

text \<open>\<open>(scenario.get("shock_month") or 999) * 30\<close>: both \<open>None\<close> and \<open>0\<close> are falsy.\<close>

definition shock_day :: "scenario \<Rightarrow> int" where
  "shock_day sc =
     (case shock_month sc of None \<Rightarrow> 999 | Some m \<Rightarrow> if m = 0 then 999 else m) * 30"

definition bull :: scenario where
  "bull = \<lparr>demand_growth_annual = 0.30, price_drift = Some 0.002, shock_month = None,
           shock_type = None, poach_rate = None, cost_multiplier = None\<rparr>"

definition bear :: scenario where
  "bear = \<lparr>demand_growth_annual = - 0.15, price_drift = Some (- 0.001), shock_month = Some 12,
           shock_type = Some demand_contraction, poach_rate = None, cost_multiplier = None\<rparr>"

definition competitor :: scenario where
  "competitor = \<lparr>demand_growth_annual = - 0.10, price_drift = Some (- 0.001),
           shock_month = Some 18, shock_type = Some operator_poach, poach_rate = Some 0.25,
           cost_multiplier = None\<rparr>"

definition regulatory :: scenario where
  "regulatory = \<lparr>demand_growth_annual = - 0.05, price_drift = Some (- 0.001),
           shock_month = Some 18, shock_type = Some cost_increase, poach_rate = None,
           cost_multiplier = Some 1.30\<rparr>"

section \<open>The random source\<close>

text \<open>
  A numpy \<open>Generator\<close> is modelled by the sequence of results it hands out: the
  \<open>pos\<close>-th call reads position \<open>pos\<close> of the stream that belongs to the method called
  (a standard normal deviate, a uniform deviate, a raw integer) and advances \<open>pos\<close>.
  Every theorem below holds for every stream, hence for the one numpy produces.
\<close>

record rng =
  normals :: "nat \<Rightarrow> real"
  uniforms :: "nat \<Rightarrow> real"
  raws :: "nat \<Rightarrow> nat"
  pos :: nat

definition advance :: "rng \<Rightarrow> rng" where
  "advance g = g\<lparr>pos := Suc (pos g)\<rparr>"

definition rng_normal :: "real \<Rightarrow> real \<Rightarrow> rng \<Rightarrow> real \<times> rng" where
  "rng_normal mu sigma g = (mu + sigma * normals g (pos g), advance g)"

definition rng_random :: "rng \<Rightarrow> real \<times> rng" where
  "rng_random g = (frac (uniforms g (pos g)), advance g)"

definition rng_uniform :: "real \<Rightarrow> real \<Rightarrow> rng \<Rightarrow> real \<times> rng" where
  "rng_uniform lo hi g = (lo + (hi - lo) * frac (uniforms g (pos g)), advance g)"

definition rng_integers :: "int \<Rightarrow> int \<Rightarrow> rng \<Rightarrow> int \<times> rng" where
  "rng_integers lo hi g = (lo + int (raws g (pos g)) mod (hi - lo), advance g)"

text \<open>\<open>rng.choice([x, y, z], p=[p1, p2, p3])\<close>: one uniform deviate against the cumulative
  probabilities.\<close>

definition rng_choice3 :: "'a \<Rightarrow> 'a \<Rightarrow> 'a \<Rightarrow> real \<Rightarrow> real \<Rightarrow> rng \<Rightarrow> 'a \<times> rng" where
  "rng_choice3 x y z p1 p2 g =
     (let u = frac (uniforms g (pos g))
      in (if u < p1 then x else if u < p1 + p2 then y else z, advance g))"

section \<open>Agents\<close>

datatype agent_type = high_commitment | casual | mercenary

record operator =
  agent_id :: nat
  atype :: agent_type
  exit_threshold :: real
  price_sensitivity :: real
  uptime :: real
  fraud_prob :: real
  stake :: int
  reputation :: real
  active :: bool
  seasons_active :: nat

record whale =
  whale_id :: string
  tokens :: int
  whale_reputation :: real
  selfish_prob :: real

definition archetypes :: "int \<Rightarrow> (agent_type \<times> real \<times> real \<times> real \<times> real) list" where
  "archetypes n =
     replicate (nat (py_int (of_int n * 0.40))) (high_commitment, 0.3, 0.2, 0.995, 0.0) @
     replicate (nat (py_int (of_int n * 0.30))) (casual, 0.8, 0.6, 0.95, 0.0) @
     replicate (nat (py_int (of_int n * 0.15))) (mercenary, 1.2, 0.9, 0.85, 0.15) @
     replicate (nat (n - py_int (of_int n * 0.40) - py_int (of_int n * 0.30)
                       - py_int (of_int n * 0.15))) (casual, 0.8, 0.6, 0.95, 0.0)"

fun create_loop ::
  "nat \<Rightarrow> (agent_type \<times> real \<times> real \<times> real \<times> real) list \<Rightarrow> rng \<Rightarrow> operator list \<times> rng" where
  "create_loop i [] g = ([], g)"
| "create_loop i ((ty, exit_t, price_s, uptime_base, fraud_p) # tys) g =
     (let (z, g1) = rng_normal 0 0.01 g;
          (k, g2) = rng_integers 0 20000 g1;
          a = \<lparr>agent_id = i, atype = ty, exit_threshold = exit_t, price_sensitivity = price_s,
               uptime = min 1.0 (uptime_base + z), fraud_prob = fraud_p, stake = 10000 + k,
               reputation = 0.0, active = True, seasons_active = 0\<rparr>;
          (rest, g3) = create_loop (Suc i) tys g2
      in (a # rest, g3))"

definition create_operators :: "int \<Rightarrow> rng \<Rightarrow> operator list \<times> rng" where
  "create_operators n g = create_loop 0 (archetypes n) g"

fun whale_loop :: "nat list \<Rightarrow> rng \<Rightarrow> whale list \<times> rng" where
  "whale_loop [] g = ([], g)"
| "whale_loop (i # is) g =
     (let (u, g1) = rng_random g;
          w = \<lparr>whale_id = ''whale_'' @ [char_of (48 + i)],
               tokens = py_int (TOTAL_SUPPLY * (0.02 + u * 0.03)),
               whale_reputation = 0.0, selfish_prob = 0.3\<rparr>;
          (rest, g2) = whale_loop is g1
      in (w # rest, g2))"

definition create_whales :: "rng \<Rightarrow> whale list \<times> rng" where
  "create_whales g = whale_loop [0 ..< 5] g"

section \<open>State update functions\<close>

subsection \<open>PSUB 1: demand\<close>

text \<open>
  Two paths of the source raise.  \<open>1 / cost_mult\<close> raises \<open>ZeroDivisionError\<close> when a
  cost shock is on and the multiplier is zero.  With \<open>1 + annual_growth\<close> negative, the
  fractional power is a complex number, every later product is complex, and the final
  \<open>max(50, ...)\<close> raises \<open>TypeError\<close>; the division comes first in the source.
\<close>

definition compute_demand ::
  "nat \<Rightarrow> int \<Rightarrow> real \<Rightarrow> scenario \<Rightarrow> rng \<Rightarrow> real \<Rightarrow> py_error + real \<times> rng" where
  "compute_demand t N P sc g cost_mult =
     (let annual_growth = demand_growth_annual sc;
          daily_growth = (1 + annual_growth) powr (1 / 365) - 1;
          coverage_ratio = of_int N / of_int N_TARGET;
          coverage_factor =
            (if coverage_ratio < 0.3 then coverage_ratio
             else if coverage_ratio < 0.8 then coverage_ratio powr 1.3
             else min (coverage_ratio powr 1.5) 2.0);
          base_demand = 1000 * coverage_factor * (1 + daily_growth) ^ t;
          sd = shock_day sc;
          shocked =
            (if shock_type sc = Some demand_contraction \<and> int t > sd
             then base_demand * max 0.3 (1 - 0.02 * (of_int (int t - sd) / 30))
             else if shock_type sc = Some cost_increase \<and> int t > sd
             then base_demand * (1 / cost_mult)
             else if shock_type sc = Some operator_poach \<and> int t > sd
             then base_demand * (1 - min 0.30 (0.05 * (of_int (int t - sd) / 30)))
             else base_demand);
          (z, g1) = rng_normal 0 0.05 g;
          noise = 1 + z
      in if shock_type sc = Some cost_increase \<and> int t > sd \<and> cost_mult = 0
         then Inl ZeroDivisionError
         else if 1 + annual_growth < 0 then Inl TypeError
         else Inr (max 50 (shocked * noise), g1))"

subsection \<open>PSUB 2: emission\<close>

text \<open>The first component is \<open>None\<close> when the controller does not update this step.\<close>

definition pid_emission ::
  "int \<Rightarrow> real \<Rightarrow> real \<Rightarrow> nat \<Rightarrow> real option \<Rightarrow> real option \<Rightarrow> real option
     \<Rightarrow> real option \<times> real \<times> real" where
  "pid_emission N integral_norm prev_error_norm t kp ki kd =
     (if t mod PID_CADENCE \<noteq> 0 then (None, integral_norm, prev_error_norm)
      else
        let kp' = (case kp of None \<Rightarrow> KP_NORM | Some v \<Rightarrow> v);
            ki' = (case ki of None \<Rightarrow> KI_NORM | Some v \<Rightarrow> v);
            kd' = (case kd of None \<Rightarrow> KD_NORM | Some v \<Rightarrow> v);
            error_norm = of_int (N_TARGET - N) / of_int N_TARGET;
            integral1 = integral_norm + error_norm;
            integral2 = max (- 5.0) (min 5.0 integral1);
            derivative_norm = error_norm - prev_error_norm;
            adjustment = BASE_EMISSION *
               (kp' * error_norm + ki' * integral2 + kd' * derivative_norm);
            new_E = BASE_EMISSION + adjustment;
            new_E' = max PID_MIN (min PID_MAX new_E)
        in (Some new_E', integral2, error_norm))"

definition static_emission :: "nat \<Rightarrow> real" where
  "static_emission t = (let year = real t / 365 in BASE_EMISSION * (0.95 powr year))"

subsection \<open>PSUB 3: burns\<close>

definition burn_tokens :: "real \<Rightarrow> real \<Rightarrow> real" where
  "burn_tokens F_daily P = (let burn_usd = F_daily * PROTOCOL_FEE in burn_usd / max P 0.001)"

subsection \<open>PSUB 4+5: operators\<close>

definition count_active :: "operator list \<Rightarrow> nat" where
  "count_active agents = length (filter active agents)"

definition per_op_emission_of :: "real \<Rightarrow> nat \<Rightarrow> real" where
  "per_op_emission_of E active_count = E / real (max active_count 1)"

definition per_op_fee_of :: "real \<Rightarrow> nat \<Rightarrow> real" where
  "per_op_fee_of F_daily active_count = (F_daily * (1 - PROTOCOL_FEE)) / real (max active_count 1)"

text \<open>The values the per-operator loop reads but does not change.\<close>

record loop_env =
  env_sd :: real
  env_sf :: real
  env_per_op_emission :: real
  env_per_op_fee :: real
  env_P :: real
  env_op_cost :: real

definition uptime_jitter :: "operator \<Rightarrow> rng \<Rightarrow> operator \<times> rng" where
  "uptime_jitter a g =
     (let (z, g1) = rng_normal 0 0.005 g
      in (a\<lparr>uptime := min 1.0 (max 0.5 (uptime a + z))\<rparr>, g1))"

definition slash_for_downtime :: "loop_env \<Rightarrow> operator \<Rightarrow> int \<Rightarrow> operator \<times> int" where
  "slash_for_downtime env a slashed =
     (if uptime a < 0.90
      then let slash_amount = py_int (of_int (stake a) * env_sd env)
           in (a\<lparr>stake := stake a - slash_amount\<rparr>, slashed + slash_amount)
      else (a, slashed))"

text \<open>\<open>a["fraud_prob"] > 0 and rng.random() < a["fraud_prob"]\<close> short-circuits: the deviate
  is drawn only for an operator with a positive fraud probability.\<close>

definition slash_for_fraud ::
  "loop_env \<Rightarrow> operator \<Rightarrow> rng \<Rightarrow> int \<Rightarrow> real \<Rightarrow> operator \<times> rng \<times> int \<times> real" where
  "slash_for_fraud env a g slashed fraud_captured =
     (if fraud_prob a > 0
      then let (u, g1) = rng_random g
           in if u < fraud_prob a
              then let (v, g2) = rng_random g1
                   in if v < 0.97
                      then let slash_amount = py_int (of_int (stake a) * env_sf env)
                           in (a\<lparr>stake := stake a - slash_amount\<rparr>, g2,
                               slashed + slash_amount, fraud_captured)
                      else (a, g2, slashed, fraud_captured + env_per_op_emission env * 0.1)
              else (a, g1, slashed, fraud_captured)
      else (a, g, slashed, fraud_captured))"

definition exit_decision :: "loop_env \<Rightarrow> operator \<Rightarrow> rng \<Rightarrow> operator \<times> rng" where
  "exit_decision env a g =
     (let per_op_yield_usd = (env_per_op_emission env + env_per_op_fee env) * env_P env;
          daily_yield = per_op_yield_usd - env_op_cost env;
          exit_prob = (if seasons_active a \<ge> 2 then EXIT_PROB_VETERAN else EXIT_PROB_BASE)
      in if daily_yield < exit_threshold a * OPPORTUNITY_COST
         then let (u, g1) = rng_random g
              in (if u < exit_prob then a\<lparr>active := False\<rparr> else a, g1)
         else (a, g))"

definition stake_floor :: "operator \<Rightarrow> operator" where
  "stake_floor a = (if stake a \<le> 0 then a\<lparr>active := False\<rparr> else a)"

text \<open>The body of \<open>for a in active\<close>.\<close>

definition operator_day ::
  "loop_env \<Rightarrow> operator \<Rightarrow> rng \<Rightarrow> int \<Rightarrow> real \<Rightarrow> operator \<times> rng \<times> int \<times> real" where
  "operator_day env a g slashed fraud_captured =
     (let (a1, g1) = uptime_jitter a g;
          (a2, slashed2) = slash_for_downtime env a1 slashed;
          (a3, g3, slashed3, fraud3) = slash_for_fraud env a2 g1 slashed2 fraud_captured;
          (a4, g4) = exit_decision env a3 g3
      in (stake_floor a4, g4, slashed3, fraud3))"

text \<open>
  \<open>active\<close> is the list of the operators that are active when the call begins, in list
  order, sharing the objects of \<open>agents\<close>; an operator's flag is changed only in its own
  iteration, so the loop visits exactly the operators found active when reached.
\<close>

fun lifecycle_loop ::
  "loop_env \<Rightarrow> operator list \<Rightarrow> rng \<Rightarrow> int \<Rightarrow> real \<Rightarrow> operator list \<times> rng \<times> int \<times> real" where
  "lifecycle_loop env [] g slashed fraud_captured = ([], g, slashed, fraud_captured)"
| "lifecycle_loop env (a # rest) g slashed fraud_captured =
     (if active a
      then let (a', g1, slashed1, fraud1) = operator_day env a g slashed fraud_captured;
               (rest', g2, slashed2, fraud2) = lifecycle_loop env rest g1 slashed1 fraud1
           in (a' # rest', g2, slashed2, fraud2)
      else let (rest', g2, slashed2, fraud2) = lifecycle_loop env rest g slashed fraud_captured
           in (a # rest', g2, slashed2, fraud2))"

text \<open>Operating-cost draw followed by the per-operator loop (reached only when at least one
  operator is active).\<close>

definition lifecycle_phase ::
  "operator list \<Rightarrow> real \<Rightarrow> real \<Rightarrow> real \<Rightarrow> rng \<Rightarrow> real \<Rightarrow> real \<Rightarrow> real
     \<Rightarrow> operator list \<times> rng \<times> int \<times> real" where
  "lifecycle_phase agents E F_daily P g cost_mult sd sf =
     (let active_count = count_active agents;
          (z, g1) = rng_normal 0 0.5 g;
          op_cost = (3.0 + z) * cost_mult;
          env = \<lparr>env_sd = sd, env_sf = sf,
                 env_per_op_emission = per_op_emission_of E active_count,
                 env_per_op_fee = per_op_fee_of F_daily active_count,
                 env_P = P, env_op_cost = op_cost\<rparr>
      in lifecycle_loop env agents g1 0 0)"

text \<open>Treasury yield stabilization (1E).\<close>

definition treasury_stabilization :: "real \<Rightarrow> real \<Rightarrow> real \<Rightarrow> real \<Rightarrow> nat \<Rightarrow> real" where
  "treasury_stabilization per_op_emission per_op_fee P T active_count =
     (let per_op_yield_usd = (per_op_emission + per_op_fee) * P
      in if per_op_yield_usd < 0.5 * OPPORTUNITY_COST \<and> T > TOTAL_SUPPLY * 0.02
         then let deficit_per_op = 0.5 * OPPORTUNITY_COST - per_op_yield_usd;
                  subsidy_tokens = deficit_per_op / max P 0.001;
                  total_subsidy = subsidy_tokens * real active_count
              in if total_subsidy < T * 0.01 then total_subsidy else 0
         else 0)"

text \<open>New entrants.\<close>

definition entry_factor :: "int \<Rightarrow> real" where
  "entry_factor active_count =
     (if active_count > N_TARGET
      then max 0.0 (1.0 - of_int (active_count - N_TARGET) / (of_int N_TARGET * 0.2))
      else 1.0)"

definition base_new :: "int \<Rightarrow> int" where
  "base_new active_count = min (py_int (of_int active_count * 0.03)) ENTRY_CAP_ABS"

definition new_count :: "int \<Rightarrow> int" where
  "new_count active_count =
     max 0 (py_int (of_int (base_new active_count) * entry_factor active_count))"

definition new_entrant :: "nat \<Rightarrow> rng \<Rightarrow> operator \<times> rng" where
  "new_entrant n g =
     (let (ty, g1) = rng_choice3 high_commitment casual mercenary 0.5 0.35 g;
          (ex, g2) = rng_choice3 0.3 0.8 1.2 0.5 0.35 g1;
          (ps, g3) = rng_uniform 0.2 0.9 g2;
          (z, g4) = rng_normal 0 0.02 g3;
          (u, g5) = rng_random g4;
          (k, g6) = rng_integers 0 20000 g5
      in (\<lparr>agent_id = n, atype = ty, exit_threshold = ex, price_sensitivity = ps,
            uptime = 0.95 + z, fraud_prob = (if u < 0.15 then 0.15 else 0.0),
            stake = 10000 + k, reputation = 0.0, active = True, seasons_active = 0\<rparr>, g6))"

fun add_entrants :: "nat \<Rightarrow> operator list \<Rightarrow> rng \<Rightarrow> operator list \<times> rng" where
  "add_entrants 0 agents g = (agents, g)"
| "add_entrants (Suc k) agents g =
     (let (a, g1) = new_entrant (length agents) g in add_entrants k (agents @ [a]) g1)"

text \<open>Operator poach shock.\<close>

fun poach_loop :: "int \<Rightarrow> int \<Rightarrow> operator list \<Rightarrow> operator list" where
  "poach_loop poach_n poached [] = []"
| "poach_loop poach_n poached (a # rest) =
     (if active a \<and> atype a \<noteq> high_commitment \<and> poached < poach_n
      then a\<lparr>active := False\<rparr> # poach_loop poach_n (poached + 1) rest
      else a # poach_loop poach_n poached rest)"

text \<open>The result is the tuple the Python returns, followed by the advanced generator.
  The parameter \<open>N\<close> is accepted and not read, as in the source.\<close>

definition update_operators ::
  "operator list \<Rightarrow> real \<Rightarrow> real \<Rightarrow> int \<Rightarrow> real \<Rightarrow> scenario \<Rightarrow> nat \<Rightarrow> rng \<Rightarrow> real \<Rightarrow> real
     \<Rightarrow> real option \<Rightarrow> real option \<Rightarrow> operator list \<times> int \<times> real \<times> real \<times> rng" where
  "update_operators agents E F_daily N P sc t g T cost_mult slash_downtime slash_fraud =
     (let sd = (case slash_downtime of None \<Rightarrow> SLASH_DOWNTIME | Some v \<Rightarrow> v);
          sf = (case slash_fraud of None \<Rightarrow> SLASH_FRAUD | Some v \<Rightarrow> v);
          active_count = count_active agents
      in if active_count = 0 then (agents, 0, 0, 0, g)
         else
           let per_op_emission = per_op_emission_of E active_count;
               per_op_fee = per_op_fee_of F_daily active_count;
               (agents1, g2, slashed, fraud_captured) =
                  lifecycle_phase agents E F_daily P g cost_mult sd sf;
               treasury_subsidy =
                  treasury_stabilization per_op_emission per_op_fee P T active_count;
               active_count2 = int (count_active agents1);
               token_yield_usd = (per_op_emission + per_op_fee) * P;
               (agents2, g3) =
                  (if token_yield_usd > 2.0 * OPPORTUNITY_COST
                   then add_entrants (nat (new_count active_count2)) agents1 g2
                   else (agents1, g2));
               agents3 =
                  (if shock_type sc = Some operator_poach \<and> int t = shock_day sc
                   then poach_loop
                          (py_int (of_int active_count2 *
                                     (case poach_rate sc of None \<Rightarrow> 0.25 | Some r \<Rightarrow> r)))
                          0 agents2
                   else agents2)
           in (agents3, slashed, fraud_captured, treasury_subsidy, g3))"

subsection \<open>PSUB 6: reputation\<close>

definition season_update :: "operator \<Rightarrow> operator" where
  "season_update a =
     (let a1 = a\<lparr>seasons_active := seasons_active a + 1\<rparr>;
          a2 = (if uptime a1 > 0.99 then a1\<lparr>reputation := reputation a1 + 1.0\<rparr> else a1);
          a3 = a2\<lparr>reputation := reputation a2 * (1 - 0.15)\<rparr>
      in a3\<lparr>reputation := min (reputation a3) 5.0\<rparr>)"

text \<open>The median uptime the source computes here is never read and is left out.\<close>

definition update_reputation :: "operator list \<Rightarrow> nat \<Rightarrow> operator list" where
  "update_reputation agents t =
     (if t mod 90 \<noteq> 0 \<or> t = 0 then agents
      else if count_active agents = 0 then agents
      else map (\<lambda>a. if active a then season_update a else a) agents)"

subsection \<open>PSUB 7: price\<close>

definition update_price ::
  "calibration \<Rightarrow> real \<Rightarrow> real \<Rightarrow> real \<Rightarrow> real \<Rightarrow> rng \<Rightarrow> real \<times> rng" where
  "update_price cal P F_daily C drift g =
     (let fundamental = (F_daily * 365) / max C 1 * 1000;
          fundamental' = max 0.01 (min 10.0 fundamental);
          (dW, g1) = rng_normal 0 1 g;
          log_P = ln (max P 0.001);
          log_F = ln (max fundamental' 0.001);
          new_log_P = log_P + OU_KAPPA cal / 365 * (log_F - log_P) + OU_SIGMA cal * dW + drift
      in (max 0.001 (exp new_log_P), g1))"

section \<open>Main simulation loop\<close>

text \<open>The arguments of \<open>run_simulation\<close>.\<close>

record run_args =
  arg_scenario_name :: string
  arg_scenario :: scenario
  arg_use_pid :: bool
  arg_seed :: int
  arg_kp :: "real option"
  arg_ki :: "real option"
  arg_kd :: "real option"
  arg_slash_downtime :: "real option"
  arg_slash_fraud :: "real option"

text \<open>One row of the output table.\<close>

record sim_record =
  r_seed :: int
  r_run_id :: string
  r_timestep :: nat
  r_scenario :: string
  r_emission_model :: string
  r_N :: int
  r_E :: real
  r_B :: real
  r_F_daily :: real
  r_P :: real
  r_C :: real
  r_T :: real
  r_s2r :: real
  r_bme :: real
  r_slashed_total :: int
  r_fraud_captured_pct :: real

text \<open>The local variables of \<open>run_simulation\<close> that live across iterations.\<close>

record sim_state =
  st_C :: real
  st_T :: real
  st_N :: int
  st_F_daily :: real
  st_P :: real
  st_E :: real
  st_B :: real
  st_integral :: real
  st_prev_error :: real
  st_slashed_total :: int
  st_fraud_total :: real
  st_cost_mult :: real
  st_agents :: "operator list"
  st_whales :: "whale list"
  st_rng :: rng
  st_records :: "sim_record list"

text \<open>\<open>np.random.default_rng\<close> is a parameter: the generator each seed stands for.\<close>

definition initial_state :: "(int \<Rightarrow> rng) \<Rightarrow> run_args \<Rightarrow> sim_state" where
  "initial_state default_rng args =
     (let g = default_rng (arg_seed args);
          (agents, g1) = create_operators 2000 g;
          (whales, g2) = create_whales g1
      in \<lparr>st_C = 200000000, st_T = 150000000, st_N = 2000, st_F_daily = 500.0, st_P = 0.10,
           st_E = BASE_EMISSION, st_B = 0.0, st_integral = 0.0, st_prev_error = 0.0,
           st_slashed_total = 0, st_fraud_total = 0.0, st_cost_mult = 1.0,
           st_agents = agents, st_whales = whales, st_rng = g2, st_records = []\<rparr>)"

text \<open>PSUB 2 as the driver calls it: a \<open>None\<close> result leaves \<open>E\<close>, the integral and the
  previous error as they are.\<close>

definition emission_phase :: "run_args \<Rightarrow> nat \<Rightarrow> sim_state \<Rightarrow> real \<times> real \<times> real" where
  "emission_phase args t st =
     (if arg_use_pid args
      then (case pid_emission (st_N st) (st_integral st) (st_prev_error st) t
                   (arg_kp args) (arg_ki args) (arg_kd args) of
              (None, i, p) \<Rightarrow> (st_E st, st_integral st, st_prev_error st)
            | (Some e, i, p) \<Rightarrow> (e, i, p))
      else (static_emission t, st_integral st, st_prev_error st))"

definition model_name :: "bool \<Rightarrow> string" where
  "model_name pid = (if pid then ''pid'' else ''static'')"

text \<open>The phases of a day, named so that theorems can refer to their results: the cost
  shock, PSUB 1, PSUB 4+5 on the day's emission and demand, and the rest of the loop body
  once the demand \<open>F_daily\<close> has been computed (\<open>g1\<close> is the generator after PSUB 1).\<close>

definition day_cost_mult :: "run_args \<Rightarrow> nat \<Rightarrow> sim_state \<Rightarrow> real" where
  "day_cost_mult args t st =
     (let sc = arg_scenario args
      in if shock_type sc = Some cost_increase \<and> int t \<ge> shock_day sc
         then (case cost_multiplier sc of None \<Rightarrow> 1.3 | Some m \<Rightarrow> m)
         else st_cost_mult st)"

definition day_demand :: "run_args \<Rightarrow> nat \<Rightarrow> sim_state \<Rightarrow> py_error + real \<times> rng" where
  "day_demand args t st =
     compute_demand t (st_N st) (st_P st) (arg_scenario args) (st_rng st)
       (day_cost_mult args t st)"

definition day_operators ::
  "run_args \<Rightarrow> nat \<Rightarrow> sim_state \<Rightarrow> real \<Rightarrow> rng
     \<Rightarrow> operator list \<times> int \<times> real \<times> real \<times> rng" where
  "day_operators args t st F_daily g1 =
     update_operators (st_agents st) (fst (emission_phase args t st))
       F_daily (st_N st) (st_P st) (arg_scenario args) t
       g1 (st_T st) (day_cost_mult args t st)
       (arg_slash_downtime args) (arg_slash_fraud args)"

definition day_body ::
  "calibration \<Rightarrow> run_args \<Rightarrow> nat \<Rightarrow> sim_state \<Rightarrow> real \<Rightarrow> rng \<Rightarrow> sim_state" where
  "day_body cal args t st F_daily g1 =
     (let sc = arg_scenario args;
          cost_mult = day_cost_mult args t st;
          (E, integral, prev_error) = emission_phase args t st;
          B = burn_tokens F_daily (st_P st);
          (agents, slashed, fraud, treas_subsidy, g2) = day_operators args t st F_daily g1;
          slashed_total = st_slashed_total st + slashed;
          fraud_total = st_fraud_total st + fraud;
          agents' = update_reputation agents t;
          (P, g3) = update_price cal (st_P st) F_daily (st_C st)
                      (case price_drift sc of None \<Rightarrow> 0 | Some d \<Rightarrow> d) g2;
          C = max 0 (min TOTAL_SUPPLY (st_C st + E - B - of_int slashed));
          T = max 0 (st_T st + of_int slashed - treas_subsidy);
          N = max 1 (int (count_active agents'));
          bme = B / max E 1;
          row = \<lparr>r_seed = arg_seed args,
                 r_run_id = arg_scenario_name args @ ''_'' @ model_name (arg_use_pid args),
                 r_timestep = t,
                 r_scenario = arg_scenario_name args,
                 r_emission_model = model_name (arg_use_pid args),
                 r_N = N, r_E = py_round E 0, r_B = py_round B 2,
                 r_F_daily = py_round F_daily 2, r_P = py_round P 6,
                 r_C = py_round C 0, r_T = py_round T 0,
                 r_s2r = py_round bme 6, r_bme = py_round bme 6,
                 r_slashed_total = slashed_total,
                 r_fraud_captured_pct =
                   py_round (fraud_total / max (E * (real t + 1)) 1 * 100) 4\<rparr>
      in \<lparr>st_C = C, st_T = T, st_N = N, st_F_daily = F_daily, st_P = P, st_E = E, st_B = B,
           st_integral = integral, st_prev_error = prev_error,
           st_slashed_total = slashed_total, st_fraud_total = fraud_total,
           st_cost_mult = cost_mult, st_agents = agents', st_whales = st_whales st,
           st_rng = g3, st_records = st_records st @ [row]\<rparr>)"

text \<open>One iteration of the loop: an exception of the demand generator ends the run.\<close>

definition day_step ::
  "calibration \<Rightarrow> run_args \<Rightarrow> nat \<Rightarrow> sim_state \<Rightarrow> py_error + sim_state" where
  "day_step cal args t st =
     (case day_demand args t st of
        Inl e \<Rightarrow> Inl e
      | Inr (F_daily, g1) \<Rightarrow> Inr (day_body cal args t st F_daily g1))"

text \<open>\<open>for t in range(n)\<close>: the state after the first \<open>n\<close> days, or the exception raised
  on the way.\<close>

primrec run_days ::
  "calibration \<Rightarrow> run_args \<Rightarrow> nat \<Rightarrow> sim_state \<Rightarrow> py_error + sim_state" where
  "run_days cal args 0 st = Inr st"
| "run_days cal args (Suc n) st =
     (case run_days cal args n st of
        Inl e \<Rightarrow> Inl e
      | Inr s \<Rightarrow> day_step cal args n s)"

definition run_simulation ::
  "(int \<Rightarrow> rng) \<Rightarrow> calibration \<Rightarrow> run_args \<Rightarrow> py_error + sim_record list" where
  "run_simulation default_rng cal args =
     (case run_days cal args TIMESTEPS (initial_state default_rng args) of
        Inl e \<Rightarrow> Inl e
      | Inr st \<Rightarrow> Inr (st_records st))"

section \<open>The Ki rank-consistency test of multi\_seed.py\<close>

datatype verdict = STRUCTURAL | PATH_DEPENDENT

definition N_SEEDS :: nat where "N_SEEDS = 30"
definition BASE_SEED :: int where "BASE_SEED = 1000"
definition ki_values :: "real list" where "ki_values = [0.05, 0.10, 0.15, 0.25, 0.35]"

text \<open>Terminal population of one bear-scenario PID run.  The bear scenario never raises
  (lemma \<open>bear_run_returns\<close> below), so the error branch is not taken.\<close>

definition ki_final_N :: "(int \<Rightarrow> rng) \<Rightarrow> calibration \<Rightarrow> real \<Rightarrow> int \<Rightarrow> py_error + int" where
  "ki_final_N default_rng cal k sd =
     (case run_simulation default_rng cal
        \<lparr>arg_scenario_name = ''bear'', arg_scenario = bear, arg_use_pid = True, arg_seed = sd,
         arg_kp = Some KP_NORM, arg_ki = Some k, arg_kd = Some KD_NORM,
         arg_slash_downtime = None, arg_slash_fraud = None\<rparr> of
        Inl e \<Rightarrow> Inl e
      | Inr records \<Rightarrow> Inr (r_N (last records)))"

text \<open>\<open>df.pivot(index="seed", columns="ki", values="final_N")\<close>: one row per seed, one column
  per Ki value, both ascending.\<close>

definition pivot :: "(real \<Rightarrow> int \<Rightarrow> int) \<Rightarrow> int list list" where
  "pivot final_N =
     map (\<lambda>seed_offset. map (\<lambda>k. final_N k (BASE_SEED + int seed_offset)) ki_values)
       [0 ..< N_SEEDS]"

text \<open>\<open>rank(axis=1, ascending=False)\<close> with the default tie method: a value's rank is the
  average of the positions its tie group takes when the row is sorted descending.\<close>

definition rank_row :: "int list \<Rightarrow> real list" where
  "rank_row row =
     map (\<lambda>v. real (length (filter (\<lambda>w. v < w) row))
              + (real (length (filter (\<lambda>w. w = v) row)) + 1) / 2) row"

definition columns_of :: "real list list \<Rightarrow> real list list" where
  "columns_of rows = map (\<lambda>c. map (\<lambda>r. r ! c) rows) [0 ..< length ki_values]"

text \<open>\<open>mode().iloc[0]\<close>: the smallest of the most frequent values of a column.\<close>

definition modal_rank :: "real list \<Rightarrow> real" where
  "modal_rank col =
     (let most = Max (set (map (count_list col) col))
      in Min (set (filter (\<lambda>v. count_list col v = most) col)))"

definition consistency :: "real list \<Rightarrow> real" where
  "consistency col =
     real (length (filter (\<lambda>r. r = modal_rank col) col)) / real (length col)"

definition min_consistency :: "int list list \<Rightarrow> real" where
  "min_consistency table = Min (set (map consistency (columns_of (map rank_row table))))"

definition rank_verdict :: "int list list \<Rightarrow> verdict" where
  "rank_verdict table = (if min_consistency table > 0.60 then STRUCTURAL else PATH_DEPENDENT)"

text \<open>The harness runs every (Ki, seed) pair first, Ki by Ki; an exception in any run ends
  it.  Otherwise the table is pivoted and the verdict printed.\<close>

fun first_error :: "(py_error + 'a) list \<Rightarrow> py_error option" where
  "first_error [] = None"
| "first_error (Inl e # rest) = Some e"
| "first_error (Inr v # rest) = first_error rest"

definition ki_nonmonotonicity_test :: "(int \<Rightarrow> rng) \<Rightarrow> calibration \<Rightarrow> py_error + verdict" where
  "ki_nonmonotonicity_test default_rng cal =
     (let runs = concat (map (\<lambda>k. map (\<lambda>seed_offset.
                     ki_final_N default_rng cal k (BASE_SEED + int seed_offset)) [0 ..< N_SEEDS])
                   ki_values)
      in case first_error runs of
           Some e \<Rightarrow> Inl e
         | None \<Rightarrow> Inr (rank_verdict (pivot (\<lambda>k sd. projr (ki_final_N default_rng cal k sd)))))"

section \<open>Concrete inputs\<close>

text \<open>A generator whose every deviate is zero and the family that gives it to every seed,
  a second family that agrees with it on seed 42 only, a mercenary operator as the seeding
  creates it under that generator, a high-commitment operator with nothing to be slashed
  for, run arguments (the defaults, a fraud penalty of 2, the static policy), and a pivot
  table of thirty seeds in which eighteen seeds rank the Ki values one way and twelve
  another.\<close>

definition zero_rng :: rng where
  "zero_rng = \<lparr>normals = (\<lambda>_. 0), uniforms = (\<lambda>_. 0), raws = (\<lambda>_. 0), pos = 0\<rparr>"

definition zero_seeded :: "int \<Rightarrow> rng" where
  "zero_seeded sd = zero_rng"

definition example_operator :: operator where
  "example_operator =
     \<lparr>agent_id = 0, atype = mercenary, exit_threshold = 1.2, price_sensitivity = 0.9,
      uptime = 0.85, fraud_prob = 0.15, stake = 10000, reputation = 0.0, active = True,
      seasons_active = 0\<rparr>"

definition steady_operator :: operator where
  "steady_operator =
     \<lparr>agent_id = 0, atype = high_commitment, exit_threshold = 0.3, price_sensitivity = 0.2,
      uptime = 0.995, fraud_prob = 0.0, stake = 10000, reputation = 0.0, active = True,
      seasons_active = 0\<rparr>"

definition example_args :: run_args where
  "example_args =
     \<lparr>arg_scenario_name = ''bear'', arg_scenario = bear, arg_use_pid = True, arg_seed = 42,
      arg_kp = None, arg_ki = None, arg_kd = None,
      arg_slash_downtime = None, arg_slash_fraud = None\<rparr>"

definition example_cal :: calibration where
  "example_cal = \<lparr>mesh_ou_kappa = None, mesh_ou_sigma = None\<rparr>"


definition static_args :: run_args where
  "static_args = example_args\<lparr>arg_use_pid := False\<rparr>"


definition split_table :: "int list list" where
  "split_table =
     replicate 18 [500, 400, 300, 200, 100] @ replicate 12 [400, 500, 100, 300, 200]"

section \<open>Predicates used in the proofs about a whole run\<close>





section \<open>The emission controller\<close>

lemma pid_emission_idle:
  "t mod 14 \<noteq> 0 \<Longrightarrow> pid_emission N i p t kp ki kd = (None, i, p)"
  by (simp add: pid_emission_def PID_CADENCE_def)

lemma pid_emission_evaluating:
  "t mod 14 = 0 \<Longrightarrow> pid_emission N i p t kp ki kd =
     (let err = (10000 - real_of_int N) / 10000;
          integ = max (- 5) (min 5 (i + err));
          deriv = err - p
      in (Some (max 27397 (min 328767 (109589 + 109589 *
             ((case kp of None \<Rightarrow> 0.8 | Some v \<Rightarrow> v) * err
              + (case ki of None \<Rightarrow> 0.15 | Some v \<Rightarrow> v) * integ
              + (case kd of None \<Rightarrow> 0.2 | Some v \<Rightarrow> v) * deriv)))), integ, err))"
  unfolding pid_emission_def PID_CADENCE_def Let_def N_TARGET_def BASE_EMISSION_def
    PID_MIN_def PID_MAX_def KP_NORM_def KI_NORM_def KD_NORM_def
  by simp

lemma pid_emission_saturates:
  assumes t: "t mod 14 = 0"
    and a: "k_i * max (- 5) (min 5 (i - 1)) = 0"
    and b: "k_d * (- 1 - p) = 0"
  shows "fst (pid_emission 20000 i p t (Some 0.8) (Some k_i) (Some k_d)) = Some 27397"
proof -
  have "pid_emission 20000 i p t (Some 0.8) (Some k_i) (Some k_d) =
     (Some (max 27397 (min 328767 (109589 + 109589 *
         (0.8 * (- 1) + k_i * max (- 5) (min 5 (i + (- 1))) + k_d * (- 1 - p))))),
       max (- 5) (min 5 (i + (- 1))), - 1)"
    using t by (simp add: pid_emission_evaluating Let_def)
  then show ?thesis using a b by simp
qed

lemma emission_phase_idle:
  "t mod 14 \<noteq> 0 \<Longrightarrow> arg_use_pid args \<Longrightarrow>
     emission_phase args t st = (st_E st, st_integral st, st_prev_error st)"
  by (simp add: emission_phase_def pid_emission_idle)

text \<open>
  C3.  Off the 14-day cadence the controller returns no rate and hands back the integral
  and the previous error as given, and the driver keeps \<open>E\<close>, the integral and the previous
  error; on the cadence it returns the clamped rate
  \<open>clamp(109589 + 109589 (Kp e + Ki I + Kd d), 27397, 328767)\<close> with
  \<open>e = (10000 - N) / 10000\<close>, \<open>I = clamp(integral + e, -5, 5)\<close>, \<open>d = e - prev_error\<close>
  (a gain that is not given is the default 0.8, 0.15, 0.2).  At \<open>N = 20000\<close>, \<open>Kp = 0.8\<close>,
  with the integral and derivative terms contributing nothing, the rate is 27397.
\<close>

theorem pid_emission_cadence:
  "(t mod 14 \<noteq> 0 \<longrightarrow>
      pid_emission N i p t kp ki kd = (None, i, p) \<and>
      (arg_use_pid args \<longrightarrow>
         emission_phase args t st = (st_E st, st_integral st, st_prev_error st))) \<and>
   (t mod 14 = 0 \<longrightarrow>
      pid_emission N i p t kp ki kd =
        (let err = (10000 - real_of_int N) / 10000;
             integ = max (- 5) (min 5 (i + err));
             deriv = err - p
         in (Some (max 27397 (min 328767 (109589 + 109589 *
                ((case kp of None \<Rightarrow> 0.8 | Some v \<Rightarrow> v) * err
                 + (case ki of None \<Rightarrow> 0.15 | Some v \<Rightarrow> v) * integ
                 + (case kd of None \<Rightarrow> 0.2 | Some v \<Rightarrow> v) * deriv)))), integ, err))) \<and>
   (t mod 14 = 0 \<and> k_i * max (- 5) (min 5 (i - 1)) = 0 \<and> k_d * (- 1 - p) = 0 \<longrightarrow>
      fst (pid_emission 20000 i p t (Some 0.8) (Some k_i) (Some k_d)) = Some 27397)"
proof (intro conjI impI)
  assume "t mod 14 \<noteq> 0"
  then show "pid_emission N i p t kp ki kd = (None, i, p)"
    by (rule pid_emission_idle)
next
  assume "t mod 14 \<noteq> 0" and "arg_use_pid args"
  then show "emission_phase args t st = (st_E st, st_integral st, st_prev_error st)"
    by (rule emission_phase_idle)
next
  assume "t mod 14 = 0"
  then show "pid_emission N i p t kp ki kd =
        (let err = (10000 - real_of_int N) / 10000;
             integ = max (- 5) (min 5 (i + err));
             deriv = err - p
         in (Some (max 27397 (min 328767 (109589 + 109589 *
                ((case kp of None \<Rightarrow> 0.8 | Some v \<Rightarrow> v) * err
                 + (case ki of None \<Rightarrow> 0.15 | Some v \<Rightarrow> v) * integ
                 + (case kd of None \<Rightarrow> 0.2 | Some v \<Rightarrow> v) * deriv)))), integ, err))"
    by (rule pid_emission_evaluating)
next
  assume "t mod 14 = 0 \<and> k_i * max (- 5) (min 5 (i - 1)) = 0 \<and> k_d * (- 1 - p) = 0"
  then show "fst (pid_emission 20000 i p t (Some 0.8) (Some k_i) (Some k_d)) = Some 27397"
    by (intro pid_emission_saturates) simp_all
qed

theorem pid_emission_cadence_witness:
  "(15::nat) mod 14 \<noteq> 0 \<and> (28::nat) mod 14 = 0 \<and>
   pid_emission 20000 0 0 15 (Some 0.8) (Some 0) (Some 0) = (None, 0, 0) \<and>
   fst (pid_emission 20000 0 0 28 (Some 0.8) (Some 0) (Some 0)) = Some 27397"
  using pid_emission_cadence [of 15 20000 0 0 "Some 0.8" "Some 0" "Some 0" example_args
      "initial_state zero_seeded example_args" 0 0]
    pid_emission_cadence [of 28 20000 0 0 "Some 0.8" "Some 0" "Some 0" example_args
      "initial_state zero_seeded example_args" 0 0]
  by (simp add: Let_def)

section \<open>Entry of new operators\<close>

lemma length_lifecycle_loop: "length (fst (lifecycle_loop env agents g s f)) = length agents"
  by (induction agents arbitrary: g s f) (auto simp: split_beta Let_def)

lemma length_lifecycle_phase:
  "length (fst (lifecycle_phase agents E F P g cm sd sf)) = length agents"
  by (simp add: lifecycle_phase_def Let_def split_beta length_lifecycle_loop)

lemma length_add_entrants: "length (fst (add_entrants k agents g)) = length agents + k"
  by (induction k arbitrary: agents g) (auto simp: split_beta Let_def)

lemma length_poach_loop: "length (poach_loop n k agents) = length agents"
  by (induction agents arbitrary: k) auto

lemma count_active_lifecycle_loop_empty:
  "count_active agents = 0 \<Longrightarrow> count_active (fst (lifecycle_loop env agents g s f)) = 0"
  by (induction agents arbitrary: g s f)
     (auto simp: split_beta Let_def count_active_def split: if_splits)

lemma count_active_lifecycle_phase_empty:
  "count_active agents = 0 \<Longrightarrow>
     count_active (fst (lifecycle_phase agents E F P g cm sd sf)) = 0"
  by (simp add: lifecycle_phase_def Let_def split_beta count_active_lifecycle_loop_empty)





lemma new_count_zero: "new_count 0 = 0"
  by (simp add: new_count_def base_new_def py_int_def ENTRY_CAP_ABS_def)

lemma update_operators_length:
  "length (fst (update_operators agents E F N P sc t g T cm sd sf)) =
     length agents +
     (if (per_op_emission_of E (count_active agents) + per_op_fee_of F (count_active agents)) * P
           > 2.0 * OPPORTUNITY_COST
      then nat (new_count (int (count_active (fst (lifecycle_phase agents E F P g cm
              (case sd of None \<Rightarrow> SLASH_DOWNTIME | Some v \<Rightarrow> v)
              (case sf of None \<Rightarrow> SLASH_FRAUD | Some v \<Rightarrow> v))))))
      else 0)"
  by (simp add: update_operators_def Let_def split_beta length_poach_loop length_add_entrants
        length_lifecycle_phase count_active_lifecycle_phase_empty new_count_zero)


text \<open>A day on which forty steady operators earn well: none is slashed, none leaves, and
  one entrant is admitted.\<close>

lemma count_active_replicate: "count_active (replicate n a) = (if active a then n else 0)"
  by (simp add: count_active_def)

lemma normals_advance: "normals (advance g) = normals g"
  by (simp add: advance_def)

lemma operator_day_steady:
  assumes "normals g (pos g) = 0"
    and "1.5 \<le> (env_per_op_emission env + env_per_op_fee env) * env_P env - env_op_cost env"
  shows "operator_day env steady_operator g s f = (steady_operator, advance g, s, f)"
  using assms
  by (simp add: operator_day_def uptime_jitter_def rng_normal_def slash_for_downtime_def
        slash_for_fraud_def exit_decision_def stake_floor_def steady_operator_def Let_def
        OPPORTUNITY_COST_def)

lemma lifecycle_loop_steady:
  assumes "\<forall>k. normals g k = 0"
    and "1.5 \<le> (env_per_op_emission env + env_per_op_fee env) * env_P env - env_op_cost env"
  shows "fst (lifecycle_loop env (replicate n steady_operator) g s f)
           = replicate n steady_operator"
  using assms(1)
proof (induction n arbitrary: g)
  case 0
  then show ?case by simp
next
  case (Suc n)
  have act: "active steady_operator" by (simp add: steady_operator_def)
  have day: "operator_day env steady_operator g s f = (steady_operator, advance g, s, f)"
    using Suc.prems assms(2) by (intro operator_day_steady) simp_all
  have "\<forall>k. normals (advance g) k = 0"
    using Suc.prems by (simp add: advance_def)
  from Suc.IH [OF this] show ?case
    by (simp add: act day split_beta)
qed

lemma steady_phase:
  "fst (lifecycle_phase (replicate 40 steady_operator) 109589 500 0.1 zero_rng 1 sd sf)
     = replicate 40 steady_operator"
  unfolding lifecycle_phase_def Let_def split_beta
  by (rule lifecycle_loop_steady)
     (simp_all add: rng_normal_def zero_rng_def advance_def count_active_replicate
        steady_operator_def per_op_emission_of_def per_op_fee_of_def PROTOCOL_FEE_def)

lemma new_count_40: "new_count 40 = 1"
  by (simp add: new_count_def base_new_def entry_factor_def py_int_def ENTRY_CAP_ABS_def
        N_TARGET_def)

lemma active_steady: "active steady_operator"
  by (simp add: steady_operator_def)

lemma steady_day_length:
  "length (fst (update_operators (replicate 40 steady_operator) 109589 500 40 0.1 bear 0
      zero_rng 150000000 1 None None)) = 41"
proof -
  have "(per_op_emission_of 109589 40 + per_op_fee_of 500 40) * 0.1 > 2.0 * OPPORTUNITY_COST"
    by (simp add: per_op_emission_of_def per_op_fee_of_def PROTOCOL_FEE_def OPPORTUNITY_COST_def)
  then show ?thesis
    unfolding update_operators_length
    by (simp add: steady_phase count_active_replicate active_steady new_count_40)
qed



section \<open>The reputation updater\<close>

lemma inactive_map_id:
  "count_active agents = 0 \<Longrightarrow> map (\<lambda>a. if active a then f a else a) agents = agents"
  by (induction agents) (auto simp: count_active_def split: if_splits)

lemma season_update_eq:
  "season_update a = a\<lparr>seasons_active := seasons_active a + 1,
        reputation := min 5.0 ((reputation a + (if uptime a > 0.99 then 1.0 else 0.0)) * 0.85)\<rparr>"
  by (simp add: season_update_def Let_def min.commute)

text \<open>
  C7, as amended.  On a day \<open>t > 0\<close> with \<open>t mod 90 = 0\<close> every active operator's season
  counter goes up by one and its reputation becomes
  \<open>min(5.0, (reputation + (1.0 if uptime > 0.99 else 0.0)) * 0.85)\<close>, inactive operators
  staying as they are; on every other day, day 0 included, the list is returned unchanged.
\<close>

theorem update_reputation_seasons:
  "(t mod 90 = 0 \<and> t \<noteq> 0 \<longrightarrow>
      update_reputation agents t =
        map (\<lambda>a. if active a
                 then a\<lparr>seasons_active := seasons_active a + 1,
                         reputation := min 5.0 ((reputation a
                              + (if uptime a > 0.99 then 1.0 else 0.0)) * 0.85)\<rparr>
                 else a) agents) \<and>
   (t mod 90 \<noteq> 0 \<or> t = 0 \<longrightarrow> update_reputation agents t = agents)"
  by (auto simp: update_reputation_def inactive_map_id season_update_eq)

theorem update_reputation_seasons_witness:
  "(90::nat) mod 90 = 0 \<and> (90::nat) \<noteq> 0 \<and> (91::nat) mod 90 \<noteq> 0 \<and>
   update_reputation [example_operator] 90 =
     [example_operator\<lparr>seasons_active := 1, reputation := 0\<rparr>] \<and>
   update_reputation [example_operator] 91 = [example_operator]"
  using update_reputation_seasons [of 90 "[example_operator]"]
    update_reputation_seasons [of 91 "[example_operator]"]
  by (simp add: example_operator_def)

theorem update_reputation_day0_counterexample:
  "(0::nat) mod 90 = 0 \<and> active example_operator \<and>
   seasons_active (hd (update_reputation [example_operator] 0))
     \<noteq> seasons_active example_operator + 1"
  by (simp add: update_reputation_def example_operator_def)


section \<open>Treasury stabilization\<close>










section \<open>The uptime band\<close>

lemma uptime_jitter_band:
  "0.5 \<le> uptime (fst (uptime_jitter a g)) \<and> uptime (fst (uptime_jitter a g)) \<le> 1"
  by (simp add: uptime_jitter_def rng_normal_def Let_def)

lemma uptime_slash_for_downtime: "uptime (fst (slash_for_downtime env a s)) = uptime a"
  by (simp add: slash_for_downtime_def Let_def)

lemma uptime_slash_for_fraud: "uptime (fst (slash_for_fraud env a g s f)) = uptime a"
  by (simp add: slash_for_fraud_def Let_def split_beta)

lemma uptime_exit_decision: "uptime (fst (exit_decision env a g)) = uptime a"
  by (simp add: exit_decision_def Let_def split_beta)

lemma uptime_stake_floor: "uptime (stake_floor a) = uptime a"
  by (simp add: stake_floor_def)

lemma operator_day_band:
  "0.5 \<le> uptime (fst (operator_day env a g s f)) \<and> uptime (fst (operator_day env a g s f)) \<le> 1"
  using uptime_jitter_band [of a g]
  by (simp add: operator_day_def Let_def split_beta uptime_stake_floor uptime_exit_decision
        uptime_slash_for_fraud uptime_slash_for_downtime)

lemma lifecycle_loop_band:
  "i < length agents \<Longrightarrow> active (agents ! i) \<Longrightarrow>
     0.5 \<le> uptime (fst (lifecycle_loop env agents g s f) ! i) \<and>
     uptime (fst (lifecycle_loop env agents g s f) ! i) \<le> 1"
proof (induction agents arbitrary: i g s f)
  case Nil
  then show ?case by simp
next
  case (Cons a rest)
  show ?case
  proof (cases i)
    case 0
    with Cons.prems show ?thesis
      using operator_day_band [of env a g s f] by (simp add: split_beta Let_def)
  next
    case (Suc j)
    with Cons.prems have "j < length rest" "active (rest ! j)" by simp_all
    then show ?thesis
      using Cons.IH Suc by (simp add: split_beta Let_def)
  qed
qed

lemma add_entrants_prefix:
  "i < length agents \<Longrightarrow> fst (add_entrants k agents g) ! i = agents ! i"
  by (induction k arbitrary: agents g) (auto simp: split_beta Let_def nth_append)

lemma poach_loop_uptime:
  "i < length agents \<Longrightarrow> uptime (poach_loop n k agents ! i) = uptime (agents ! i)"
proof (induction agents arbitrary: i k)
  case Nil
  then show ?case by simp
next
  case (Cons a rest)
  then show ?case by (cases i) auto
qed


lemma normals_uptime_jitter: "normals (snd (uptime_jitter a g)) = normals g"
  by (simp add: uptime_jitter_def rng_normal_def normals_advance)

lemma normals_slash_for_fraud: "normals (fst (snd (slash_for_fraud env a g s f))) = normals g"
  by (simp add: slash_for_fraud_def rng_random_def Let_def normals_advance)

lemma normals_exit_decision: "normals (snd (exit_decision env a g)) = normals g"
  by (simp add: exit_decision_def rng_random_def Let_def normals_advance)

lemma normals_operator_day: "normals (fst (snd (operator_day env a g s f))) = normals g"
  by (simp add: operator_day_def Let_def split_beta normals_exit_decision
        normals_slash_for_fraud normals_uptime_jitter)

lemma normals_lifecycle_loop: "normals (fst (snd (lifecycle_loop env agents g s f))) = normals g"
  by (induction agents arbitrary: g s f) (simp_all add: split_beta Let_def normals_operator_day)

lemma normals_lifecycle_phase:
  "normals (fst (snd (lifecycle_phase agents E F P g cm sd sf))) = normals g"
  by (simp add: lifecycle_phase_def Let_def split_beta normals_lifecycle_loop rng_normal_def
        normals_advance)

lemma new_entrant_uptime:
  "uptime (fst (new_entrant n g)) = 0.95 + 0.02 * normals g (pos g + 3)"
  by (simp add: new_entrant_def Let_def split_beta rng_choice3_def rng_uniform_def
        rng_normal_def advance_def eval_nat_numeral)

lemma normals_new_entrant: "normals (snd (new_entrant n g)) = normals g"
  by (simp add: new_entrant_def Let_def split_beta rng_choice3_def rng_uniform_def
        rng_normal_def rng_random_def rng_integers_def advance_def)

lemma add_entrants_uptime:
  "length agents \<le> j \<Longrightarrow> j < length agents + k \<Longrightarrow>
     \<exists>m. uptime (fst (add_entrants k agents g) ! j) = 0.95 + 0.02 * normals g m"
proof (induction k arbitrary: agents g)
  case 0
  then show ?case by simp
next
  case (Suc k)
  let ?a = "fst (new_entrant (length agents) g)"
  let ?g = "snd (new_entrant (length agents) g)"
  have step: "add_entrants (Suc k) agents g = add_entrants k (agents @ [?a]) ?g"
    by (simp add: split_beta Let_def)
  show ?case
  proof (cases "j = length agents")
    case True
    then have "fst (add_entrants k (agents @ [?a]) ?g) ! j = ?a"
      by (simp add: add_entrants_prefix)
    then show ?thesis
      unfolding step using new_entrant_uptime [of "length agents" g] by auto
  next
    case False
    with Suc.prems have "length (agents @ [?a]) \<le> j" "j < length (agents @ [?a]) + k"
      by simp_all
    from Suc.IH [OF this, of ?g] show ?thesis
      unfolding step by (simp add: normals_new_entrant)
  qed
qed

lemma lifecycle_phase_band:
  "i < length agents \<Longrightarrow> active (agents ! i) \<Longrightarrow>
     0.5 \<le> uptime (fst (lifecycle_phase agents E F P g cm sd sf) ! i) \<and>
     uptime (fst (lifecycle_phase agents E F P g cm sd sf) ! i) \<le> 1"
  unfolding lifecycle_phase_def Let_def split_beta by (rule lifecycle_loop_band)

lemma update_operators_shape:
  fixes agents E F P g cm sd sf
  assumes "count_active agents \<noteq> 0"
  defines "ph \<equiv> lifecycle_phase agents E F P g cm
              (case sd of None \<Rightarrow> SLASH_DOWNTIME | Some v \<Rightarrow> v)
              (case sf of None \<Rightarrow> SLASH_FRAUD | Some v \<Rightarrow> v)"
  shows "\<exists>k. length (fst (update_operators agents E F N P sc t g T cm sd sf))
                = length agents + k \<and>
             (\<forall>j < length agents + k.
                uptime (fst (update_operators agents E F N P sc t g T cm sd sf) ! j)
                  = uptime (fst (add_entrants k (fst ph) (fst (snd ph))) ! j))"
proof -
  define k where "k = (if (per_op_emission_of E (count_active agents)
        + per_op_fee_of F (count_active agents)) * P > 2.0 * OPPORTUNITY_COST
      then nat (new_count (int (count_active (fst ph)))) else 0)"
  define ags where "ags = fst (add_entrants k (fst ph) (fst (snd ph)))"
  have len: "length ags = length agents + k"
    by (simp add: ags_def length_add_entrants ph_def length_lifecycle_phase)
  have out: "fst (update_operators agents E F N P sc t g T cm sd sf) =
      (if shock_type sc = Some operator_poach \<and> int t = shock_day sc
       then poach_loop (py_int (of_int (int (count_active (fst ph))) *
                          (case poach_rate sc of None \<Rightarrow> 0.25 | Some r \<Rightarrow> r))) 0 ags
       else ags)"
    using assms(1) by (simp add: update_operators_def Let_def split_beta ags_def k_def ph_def)
  have "length (fst (update_operators agents E F N P sc t g T cm sd sf)) = length agents + k"
    by (simp add: out length_poach_loop len)
  moreover have "\<forall>j < length agents + k.
      uptime (fst (update_operators agents E F N P sc t g T cm sd sf) ! j) = uptime (ags ! j)"
    by (simp add: out poach_loop_uptime len)
  ultimately show ?thesis unfolding ags_def by blast
qed

text \<open>
  C10.  After a call of the lifecycle update, every operator that was active when the call
  began has an uptime in \<open>[0.5, 1.0]\<close>.  An operator appended by the same call carries the
  draw \<open>0.95 + normal(0, 0.02)\<close> as it is, with no clamp: its uptime is
  \<open>0.95 + 0.02 z\<close> for a deviate \<open>z\<close> of the generator, whatever its size.
\<close>

theorem uptime_band:
  "let out = fst (update_operators agents E F N P sc t g T cm sd sf)
   in (\<forall>i < length agents. active (agents ! i) \<longrightarrow>
          0.5 \<le> uptime (out ! i) \<and> uptime (out ! i) \<le> 1) \<and>
      (\<forall>j. length agents \<le> j \<and> j < length out \<longrightarrow>
          (\<exists>m. uptime (out ! j) = 0.95 + 0.02 * normals g m)) \<and>
      uptime (fst (new_entrant n g)) = 0.95 + 0.02 * normals g (pos g + 3)"
proof (cases "count_active agents = 0")
  case True
  then have "\<forall>i < length agents. \<not> active (agents ! i)"
    by (auto simp: count_active_def filter_empty_conv)
  moreover have "fst (update_operators agents E F N P sc t g T cm sd sf) = agents"
    using True by (simp add: update_operators_def)
  ultimately show ?thesis
    by (simp add: Let_def new_entrant_uptime)
next
  case False
  define ph where "ph = lifecycle_phase agents E F P g cm
              (case sd of None \<Rightarrow> SLASH_DOWNTIME | Some v \<Rightarrow> v)
              (case sf of None \<Rightarrow> SLASH_FRAUD | Some v \<Rightarrow> v)"
  let ?out = "fst (update_operators agents E F N P sc t g T cm sd sf)"
  from update_operators_shape [OF False, where E = E and F = F and P = P and g = g and cm = cm
      and sd = sd and sf = sf and N = N and sc = sc and t = t and T = T]
  obtain k where len: "length ?out = length agents + k"
    and nth: "\<forall>j < length agents + k.
        uptime (?out ! j) = uptime (fst (add_entrants k (fst ph) (fst (snd ph))) ! j)"
    unfolding ph_def by blast
  have lph: "length (fst ph) = length agents"
    by (simp add: ph_def length_lifecycle_phase)
  have a: "0.5 \<le> uptime (?out ! i) \<and> uptime (?out ! i) \<le> 1"
    if "i < length agents" "active (agents ! i)" for i
  proof -
    have "uptime (?out ! i) = uptime (fst ph ! i)"
      using that nth by (simp add: add_entrants_prefix lph)
    then show ?thesis
      using lifecycle_phase_band [OF that] by (simp add: ph_def)
  qed
  have b: "\<exists>m. uptime (?out ! j) = 0.95 + 0.02 * normals g m"
    if "length agents \<le> j" "j < length ?out" for j
  proof -
    have "\<exists>m. uptime (fst (add_entrants k (fst ph) (fst (snd ph))) ! j)
              = 0.95 + 0.02 * normals (fst (snd ph)) m"
      using that len by (intro add_entrants_uptime) (simp_all add: lph)
    then show ?thesis
      using that len nth by (simp add: ph_def normals_lifecycle_phase)
  qed
  show ?thesis
    unfolding Let_def using a b new_entrant_uptime by blast
qed


theorem uptime_band_witness:
  "(0 < length (replicate 40 steady_operator) \<and> active (replicate 40 steady_operator ! 0)) \<and>
   0.5 \<le> uptime (fst (update_operators (replicate 40 steady_operator) 109589 500 40 0.1 bear 0
      zero_rng 150000000 1 None None) ! 0) \<and>
   uptime (fst (update_operators (replicate 40 steady_operator) 109589 500 40 0.1 bear 0
      zero_rng 150000000 1 None None) ! 0) \<le> 1 \<and>
   (length (replicate 40 steady_operator) \<le> 40 \<and>
    40 < length (fst (update_operators (replicate 40 steady_operator) 109589 500 40 0.1 bear 0
      zero_rng 150000000 1 None None))) \<and>
   (\<exists>m. uptime (fst (update_operators (replicate 40 steady_operator) 109589 500 40 0.1 bear 0
      zero_rng 150000000 1 None None) ! 40) = 0.95 + 0.02 * normals zero_rng m) \<and>
   uptime (fst (new_entrant 40 (zero_rng\<lparr>normals := \<lambda>_. 5\<rparr>))) = 1.05"
proof -
  have act: "0 < length (replicate 40 steady_operator) \<and> active (replicate 40 steady_operator ! 0)"
    by (simp add: steady_operator_def)
  have len: "length (replicate 40 steady_operator) \<le> 40 \<and>
    40 < length (fst (update_operators (replicate 40 steady_operator) 109589 500 40 0.1 bear 0
      zero_rng 150000000 1 None None))"
    by (simp add: steady_day_length)
  have hot: "uptime (fst (new_entrant 40 (zero_rng\<lparr>normals := \<lambda>_. 5\<rparr>))) = 1.05"
    using uptime_band [where n = 40 and g = "zero_rng\<lparr>normals := \<lambda>_. 5\<rparr>"]
    by (simp add: Let_def)
  show ?thesis
    using act len hot
      uptime_band [where agents = "replicate 40 steady_operator" and E = 109589 and F = 500
        and N = 40 and P = "0.1" and sc = bear and t = 0 and g = zero_rng and T = 150000000
        and cm = 1 and sd = None and sf = None]
    unfolding Let_def by blast
qed


section \<open>The whales\<close>

lemma day_cost_mult_whales:
  "day_cost_mult args t (st\<lparr>st_whales := w\<rparr>) = day_cost_mult args t st"
  by (simp add: day_cost_mult_def Let_def)

lemma day_demand_whales:
  "day_demand args t (st\<lparr>st_whales := w\<rparr>) = day_demand args t st"
  by (simp add: day_demand_def day_cost_mult_whales)

lemma emission_phase_whales:
  "emission_phase args t (st\<lparr>st_whales := w\<rparr>) = emission_phase args t st"
  by (simp add: emission_phase_def split: prod.splits option.splits)

lemma day_operators_whales:
  "day_operators args t (st\<lparr>st_whales := w\<rparr>) F g1 = day_operators args t st F g1"
  by (simp add: day_operators_def day_cost_mult_whales emission_phase_whales)

lemma day_body_whales:
  "day_body cal args t (st\<lparr>st_whales := w\<rparr>) F g1
     = (day_body cal args t st F g1)\<lparr>st_whales := w\<rparr>"
  by (simp add: day_body_def day_cost_mult_whales emission_phase_whales
        day_operators_whales Let_def split_beta)

lemma day_step_whales:
  "day_step cal args t (st\<lparr>st_whales := w\<rparr>)
     = map_sum id (\<lambda>s. s\<lparr>st_whales := w\<rparr>) (day_step cal args t st)"
  by (simp add: day_step_def day_demand_whales day_body_whales split: sum.splits prod.splits)

lemma run_days_whales:
  "run_days cal args n (st\<lparr>st_whales := w\<rparr>)
     = map_sum id (\<lambda>s. s\<lparr>st_whales := w\<rparr>) (run_days cal args n st)"
proof (induction n)
  case 0
  then show ?case by simp
next
  case (Suc n)
  show ?case
  proof (cases "run_days cal args n st")
    case (Inl e)
    then show ?thesis using Suc by simp
  next
    case (Inr s)
    then show ?thesis using Suc by (simp add: day_step_whales id_def)
  qed
qed

lemma run_simulation_map_sum:
  "run_simulation default_rng cal args
     = map_sum id st_records (run_days cal args TIMESTEPS (initial_state default_rng args))"
  by (simp add: run_simulation_def split: sum.splits)

text \<open>
  C9.  The whales created at seeding are carried through the run and never read: replacing
  the whale list of a state by any other list leaves the outcome of the run from that
  state (every record, or the exception raised) as it is, and replacing it right after
  creation leaves the outcome of \<open>run_simulation\<close> as it is.
\<close>

theorem whales_never_consulted:
  "map_sum id st_records (run_days cal args n (st\<lparr>st_whales := w\<rparr>))
     = map_sum id st_records (run_days cal args n st)
   \<and> map_sum id st_records
        (run_days cal args TIMESTEPS ((initial_state default_rng args)\<lparr>st_whales := w\<rparr>))
       = run_simulation default_rng cal args"
  by (simp add: run_days_whales run_simulation_map_sum sum.map_comp comp_def id_def)

theorem whales_never_consulted_witness:
  "map_sum id st_records (run_days example_cal example_args TIMESTEPS
      ((initial_state zero_seeded example_args)\<lparr>st_whales := []\<rparr>))
     = run_simulation zero_seeded example_cal example_args"
  using whales_never_consulted [where cal = example_cal and args = example_args and n = 0
      and st = "initial_state zero_seeded example_args" and w = "[]"
      and default_rng = zero_seeded]
  by blast

section \<open>Determinism\<close>




section \<open>Invariants of the recorded state\<close>

lemma round_half_even_ge: "of_int a \<le> x \<Longrightarrow> a \<le> round_half_even x"
proof -
  assume "of_int a \<le> x"
  then have "a \<le> \<lfloor>x\<rfloor>" by (simp add: le_floor_iff)
  then show ?thesis by (simp add: round_half_even_def Let_def)
qed

lemma round_half_even_le: "x \<le> of_int b \<Longrightarrow> round_half_even x \<le> b"
proof (cases "x = of_int b")
  case True
  then show ?thesis by (simp add: round_half_even_def Let_def)
next
  case False
  assume "x \<le> of_int b"
  with False have "x < of_int b" by simp
  then have "\<lfloor>x\<rfloor> < b" by (simp add: floor_less_iff)
  then show ?thesis by (simp add: round_half_even_def Let_def)
qed

lemma py_round_0: "py_round x 0 = of_int (round_half_even x)"
  by (simp add: py_round_def)

lemma py_round_0_ge: "of_int a \<le> x \<Longrightarrow> of_int a \<le> py_round x 0"
  by (simp add: py_round_0 round_half_even_ge)

lemma py_round_0_le: "x \<le> of_int b \<Longrightarrow> py_round x 0 \<le> of_int b"
  by (simp add: py_round_0 round_half_even_le)

lemma py_round_6_pos: "0.001 \<le> x \<Longrightarrow> 0 < py_round x 6"
proof -
  assume "0.001 \<le> x"
  then have "of_int 1000 \<le> x * 10 ^ 6" by simp
  then have "1000 \<le> round_half_even (x * 10 ^ 6)" by (rule round_half_even_ge)
  then show ?thesis by (simp add: py_round_def)
qed

lemma static_emission_bounds:
  assumes "t \<le> 1825"
  shows "PID_MIN \<le> static_emission t \<and> static_emission t \<le> PID_MAX"
proof -
  have y: "real t / 365 \<le> 5" using assms by simp
  have "(0.95::real) powr 5 \<le> 0.95 powr (real t / 365)"
    using y by (intro powr_mono') simp_all
  then have lo: "(0.7::real) \<le> 0.95 powr (real t / 365)"
    by (simp add: powr_numeral [where x = "0.95::real", simplified] power_def)
  have "(0.95::real) powr (real t / 365) \<le> 0.95 powr 0"
    by (intro powr_mono') simp_all
  then have hi: "(0.95::real) powr (real t / 365) \<le> 1" by simp
  have "PID_MIN \<le> BASE_EMISSION * 0.7" by (simp add: PID_MIN_def BASE_EMISSION_def)
  also have "\<dots> \<le> BASE_EMISSION * 0.95 powr (real t / 365)"
    using lo by (simp add: BASE_EMISSION_def)
  finally have 1: "PID_MIN \<le> static_emission t" by (simp add: static_emission_def Let_def)
  have "BASE_EMISSION * 0.95 powr (real t / 365) \<le> BASE_EMISSION * 1"
    using hi by (simp add: BASE_EMISSION_def)
  also have "\<dots> \<le> PID_MAX" by (simp add: PID_MAX_def BASE_EMISSION_def)
  finally have 2: "static_emission t \<le> PID_MAX" by (simp add: static_emission_def Let_def)
  show ?thesis using 1 2 by simp
qed

lemma pid_emission_bounds:
  "pid_emission N i p t k1 k2 k3 = (Some e, i', p') \<Longrightarrow> PID_MIN \<le> e \<and> e \<le> PID_MAX"
  by (auto simp: pid_emission_def Let_def PID_MIN_def PID_MAX_def split: if_splits)

lemma emission_phase_bounds:
  assumes "PID_MIN \<le> st_E st" "st_E st \<le> PID_MAX" "t \<le> 1825"
  shows "PID_MIN \<le> fst (emission_phase args t st) \<and> fst (emission_phase args t st) \<le> PID_MAX"
proof (cases "arg_use_pid args")
  case False
  then show ?thesis using static_emission_bounds [OF assms(3)] by (simp add: emission_phase_def)
next
  case True
  obtain e i p where r: "pid_emission (st_N st) (st_integral st) (st_prev_error st) t
      (arg_kp args) (arg_ki args) (arg_kd args) = (e, i, p)"
    by (metis prod_cases3)
  show ?thesis
  proof (cases e)
    case None
    then show ?thesis using True r assms by (simp add: emission_phase_def)
  next
    case (Some v)
    then show ?thesis using True r pid_emission_bounds [of _ _ _ _ _ _ _ v i p]
      by (simp add: emission_phase_def)
  qed
qed

lemma day_body_E: "st_E (day_body cal args t st F g1) = fst (emission_phase args t st)"
  by (simp add: day_body_def Let_def split_beta)

lemma day_body_C:
  "0 \<le> st_C (day_body cal args t st F g1) \<and> st_C (day_body cal args t st F g1) \<le> TOTAL_SUPPLY"
  by (simp add: day_body_def Let_def split_beta TOTAL_SUPPLY_def)

lemma day_body_T_nonneg: "0 \<le> st_T (day_body cal args t st F g1)"
  by (simp add: day_body_def Let_def split_beta)

lemma day_body_N: "1 \<le> st_N (day_body cal args t st F g1)"
  by (simp add: day_body_def Let_def split_beta)

lemma update_price_floor: "0.001 \<le> fst (update_price cal P F C drift g)"
  by (simp add: update_price_def Let_def split_beta)

lemma day_body_P_eq:
  "st_P (day_body cal args t st F g1) =
     fst (update_price cal (st_P st) F (st_C st)
            (case price_drift (arg_scenario args) of None \<Rightarrow> 0 | Some d \<Rightarrow> d)
            (snd (snd (snd (snd (day_operators args t st F g1))))))"
  by (simp add: day_body_def Let_def split_beta)

lemma day_body_P: "0.001 \<le> st_P (day_body cal args t st F g1)"
  unfolding day_body_P_eq by (rule update_price_floor)

lemma day_body_records:
  "\<exists>row. st_records (day_body cal args t st F g1) = st_records st @ [row] \<and>
      r_timestep row = t \<and>
      r_N row = st_N (day_body cal args t st F g1) \<and>
      r_E row = py_round (st_E (day_body cal args t st F g1)) 0 \<and>
      r_P row = py_round (st_P (day_body cal args t st F g1)) 6 \<and>
      r_C row = py_round (st_C (day_body cal args t st F g1)) 0 \<and>
      r_T row = py_round (st_T (day_body cal args t st F g1)) 0"
  by (simp add: day_body_def Let_def split_beta)

text \<open>A run that reaches day \<open>n + 1\<close> reached day \<open>n\<close>, and its last step was a loop body.\<close>

lemma run_days_Suc_Inr:
  assumes "run_days cal args (Suc n) st = Inr s'"
  shows "\<exists>s F g1. run_days cal args n st = Inr s \<and> day_demand args n s = Inr (F, g1) \<and>
           s' = day_body cal args n s F g1"
  using assms by (auto simp: day_step_def split: sum.splits prod.splits)

lemma run_days_prefix:
  "run_days cal args m st = Inr sm \<Longrightarrow> n \<le> m \<Longrightarrow> \<exists>sn. run_days cal args n st = Inr sn"
proof (induction m arbitrary: sm)
  case 0
  then show ?case by simp
next
  case (Suc m)
  show ?case
  proof (cases "n = Suc m")
    case True
    then show ?thesis using Suc.prems(1) by blast
  next
    case False
    with Suc.prems have "n \<le> m" by simp
    moreover obtain s where "run_days cal args m st = Inr s"
      using run_days_Suc_Inr [OF Suc.prems(1)] by blast
    ultimately show ?thesis using Suc.IH by blast
  qed
qed

lemma length_run_days:
  "run_days cal args n st = Inr s \<Longrightarrow> length (st_records s) = length (st_records st) + n"
proof (induction n arbitrary: s)
  case 0
  then show ?case by simp
next
  case (Suc n)
  from run_days_Suc_Inr [OF Suc.prems]
  obtain s0 F g1 where s0: "run_days cal args n st = Inr s0"
    and s: "s = day_body cal args n s0 F g1" by blast
  obtain row where "st_records s = st_records s0 @ [row]"
    unfolding s using day_body_records by blast
  then show ?case using Suc.IH [OF s0] by simp
qed

lemma nth_run_days:
  "run_days cal args n st = Inr s \<Longrightarrow> t < n \<Longrightarrow>
     \<exists>s'. run_days cal args (Suc t) st = Inr s' \<and>
       st_records s ! (length (st_records st) + t) = last (st_records s')"
proof (induction n arbitrary: s)
  case 0
  then show ?case by simp
next
  case (Suc n)
  from run_days_Suc_Inr [OF Suc.prems(1)]
  obtain s0 F g1 where s0: "run_days cal args n st = Inr s0"
    and s: "s = day_body cal args n s0 F g1" by blast
  obtain row where row: "st_records s = st_records s0 @ [row]"
    unfolding s using day_body_records by blast
  have len: "length (st_records s0) = length (st_records st) + n"
    using s0 by (rule length_run_days)
  show ?case
  proof (cases "t = n")
    case True
    then show ?thesis
      using Suc.prems(1) by (simp add: row nth_append len)
  next
    case False
    with Suc.prems have "t < n" by simp
    from Suc.IH [OF s0 this] show ?thesis
      using \<open>t < n\<close> by (simp add: row nth_append len)
  qed
qed

lemma run_days_E:
  "run_days cal args n st = Inr s \<Longrightarrow> n \<le> 1825 \<Longrightarrow> PID_MIN \<le> st_E st \<Longrightarrow>
     st_E st \<le> PID_MAX \<Longrightarrow> PID_MIN \<le> st_E s \<and> st_E s \<le> PID_MAX"
proof (induction n arbitrary: s)
  case 0
  then show ?case by simp
next
  case (Suc n)
  from run_days_Suc_Inr [OF Suc.prems(1)]
  obtain s0 F g1 where s0: "run_days cal args n st = Inr s0"
    and s: "s = day_body cal args n s0 F g1" by blast
  have "PID_MIN \<le> st_E s0 \<and> st_E s0 \<le> PID_MAX"
    using Suc.IH [OF s0] Suc.prems by simp
  then show ?case
    using emission_phase_bounds [of s0 n args] Suc.prems(2)
    by (simp add: s day_body_E)
qed

lemma initial_state_fields:
  "st_E (initial_state default_rng args) = BASE_EMISSION"
  "st_records (initial_state default_rng args) = []"
  by (simp_all add: initial_state_def Let_def split_beta)

text \<open>A run raises only for a scenario whose growth rate is below \<open>-1\<close> or whose cost
  multiplier is zero; for every other scenario it returns its records.\<close>

lemma compute_demand_shape:
  "\<exists>F. compute_demand t N P sc g cm =
     (if shock_type sc = Some cost_increase \<and> int t > shock_day sc \<and> cm = 0
      then Inl ZeroDivisionError
      else if 1 + demand_growth_annual sc < 0 then Inl TypeError
      else Inr (F, snd (rng_normal 0 0.05 g)))"
  unfolding compute_demand_def Let_def split_beta by (rule exI, rule refl)

lemma compute_demand_returns:
  assumes "0 \<le> 1 + demand_growth_annual sc"
    and "\<not> (shock_type sc = Some cost_increase \<and> int t > shock_day sc \<and> cm = 0)"
  shows "\<exists>F g1. compute_demand t N P sc g cm = Inr (F, g1)"
  using compute_demand_shape [of t N P sc g cm] assms by auto


lemma day_demand_returns:
  assumes "0 \<le> 1 + demand_growth_annual (arg_scenario args)"
    and "cost_multiplier (arg_scenario args) \<noteq> Some 0"
  shows "\<exists>F g1. day_demand args t st = Inr (F, g1)"
proof -
  have "day_cost_mult args t st \<noteq> 0"
    if "shock_type (arg_scenario args) = Some cost_increase"
      "int t > shock_day (arg_scenario args)"
    using that assms(2) by (auto simp: day_cost_mult_def Let_def split: option.splits)
  then show ?thesis
    unfolding day_demand_def by (intro compute_demand_returns assms(1)) blast
qed

lemma run_days_returns:
  assumes "0 \<le> 1 + demand_growth_annual (arg_scenario args)"
    and "cost_multiplier (arg_scenario args) \<noteq> Some 0"
  shows "\<exists>s. run_days cal args n st = Inr s"
proof (induction n)
  case 0
  then show ?case by simp
next
  case (Suc n)
  then obtain s where s: "run_days cal args n st = Inr s" by blast
  obtain F g1 where "day_demand args n s = Inr (F, g1)"
    using day_demand_returns [OF assms] by blast
  then show ?case by (simp add: s day_step_def)
qed

lemma run_simulation_returns:
  assumes "0 \<le> 1 + demand_growth_annual (arg_scenario args)"
    and "cost_multiplier (arg_scenario args) \<noteq> Some 0"
  shows "\<exists>records. run_simulation default_rng cal args = Inr records"
proof -
  obtain s where "run_days cal args TIMESTEPS (initial_state default_rng args) = Inr s"
    using run_days_returns [OF assms] by blast
  then show ?thesis by (simp add: run_simulation_def)
qed

lemma bear_run_returns:
  "arg_scenario args = bear \<Longrightarrow> \<exists>records. run_simulation default_rng cal args = Inr records"
  by (rule run_simulation_returns) (simp_all add: bear_def)

text \<open>
  C1.  A run that returns has 1825 records, and for every day \<open>t\<close> in \<open>0..1824\<close>, record
  \<open>t\<close> is the record of day \<open>t\<close>; both the state after that day and the rounded values
  recorded for it satisfy \<open>0 \<le> C \<le> 1,000,000,000\<close>, \<open>T \<ge> 0\<close>, \<open>N \<ge> 1\<close>, \<open>P > 0\<close> and
  \<open>27,397 \<le> E \<le> 328,767\<close>, under the PID and under the static policy, for every
  scenario, seed, gains and slashing penalties.
\<close>

theorem run_invariants:
  assumes "t < 1825" and "run_simulation default_rng cal args = Inr records"
  shows "length records = 1825 \<and> r_timestep (records ! t) = t \<and>
         (\<exists>st. run_days cal args (Suc t) (initial_state default_rng args) = Inr st \<and>
            0 \<le> st_C st \<and> st_C st \<le> 1000000000 \<and> 0 \<le> st_T st \<and> 1 \<le> st_N st \<and>
            0 < st_P st \<and> 27397 \<le> st_E st \<and> st_E st \<le> 328767) \<and>
         (0 \<le> r_C (records ! t) \<and> r_C (records ! t) \<le> 1000000000 \<and>
          0 \<le> r_T (records ! t) \<and> 1 \<le> r_N (records ! t) \<and> 0 < r_P (records ! t) \<and>
          27397 \<le> r_E (records ! t) \<and> r_E (records ! t) \<le> 328767)"
proof -
  define s0 where "s0 = initial_state default_rng args"
  define r where "r = records ! t"
  obtain sT where sT: "run_days cal args TIMESTEPS s0 = Inr sT"
    and recs: "records = st_records sT"
    using assms(2) by (auto simp: run_simulation_def s0_def split: sum.splits)
  have len: "length records = 1825"
    using length_run_days [OF sT] by (simp add: recs s0_def initial_state_fields TIMESTEPS_def)
  obtain st where st: "run_days cal args (Suc t) s0 = Inr st"
    and last: "r = last (st_records st)"
    using nth_run_days [OF sT, of t] assms(1)
    by (auto simp: r_def recs s0_def initial_state_fields TIMESTEPS_def)
  from run_days_Suc_Inr [OF st]
  obtain prev F g1 where body: "st = day_body cal args t prev F g1" by blast
  obtain row where "st_records st = st_records prev @ [row]" "r_timestep row = t"
      "r_N row = st_N st" "r_E row = py_round (st_E st) 0" "r_P row = py_round (st_P st) 6"
      "r_C row = py_round (st_C st) 0" "r_T row = py_round (st_T st) 0"
    unfolding body using day_body_records by blast
  with last have r: "r_timestep r = t" "r_N r = st_N st" "r_E r = py_round (st_E st) 0"
      "r_P r = py_round (st_P st) 6" "r_C r = py_round (st_C st) 0" "r_T r = py_round (st_T st) 0"
    by simp_all
  have C: "of_int 0 \<le> st_C st" "st_C st \<le> of_int 1000000000"
    using day_body_C [of cal args t prev F g1] by (simp_all add: body TOTAL_SUPPLY_def)
  have T: "of_int 0 \<le> st_T st"
    using day_body_T_nonneg [of cal args t prev F g1] by (simp add: body)
  have N: "1 \<le> st_N st" using day_body_N [of cal args t prev F g1] by (simp add: body)
  have P: "0.001 \<le> st_P st" using day_body_P [of cal args t prev F g1] by (simp add: body)
  have E: "of_int 27397 \<le> st_E st" "st_E st \<le> of_int 328767"
    using run_days_E [OF st] assms(1)
    by (simp_all add: s0_def initial_state_fields BASE_EMISSION_def PID_MIN_def PID_MAX_def)
  have rC: "0 \<le> r_C r" "r_C r \<le> 1000000000"
    using py_round_0_ge [OF C(1)] py_round_0_le [OF C(2)] by (simp_all add: r)
  have rT: "0 \<le> r_T r" using py_round_0_ge [OF T] by (simp add: r)
  have rE: "27397 \<le> r_E r" "r_E r \<le> 328767"
    using py_round_0_ge [OF E(1)] py_round_0_le [OF E(2)] by (simp_all add: r)
  have rP: "0 < r_P r" using py_round_6_pos [OF P] by (simp add: r)
  have state: "\<exists>st. run_days cal args (Suc t) (initial_state default_rng args) = Inr st \<and>
            0 \<le> st_C st \<and> st_C st \<le> 1000000000 \<and> 0 \<le> st_T st \<and> 1 \<le> st_N st \<and>
            0 < st_P st \<and> 27397 \<le> st_E st \<and> st_E st \<le> 328767"
    using st C T N P E unfolding s0_def by (intro exI [of _ st]) simp
  have rN: "1 \<le> r_N r" using N by (simp add: r)
  show ?thesis
    using len r(1) rN rC rT rE rP state unfolding r_def by blast
qed

theorem run_invariants_witness:
  "(0::nat) < 1825 \<and> (1824::nat) < 1825 \<and>
   (\<exists>records. run_simulation zero_seeded example_cal example_args = Inr records \<and>
      r_timestep (records ! 0) = 0 \<and>
      27397 \<le> r_E (records ! 0) \<and> r_E (records ! 0) \<le> 328767) \<and>
   (\<exists>records. run_simulation zero_seeded example_cal static_args = Inr records \<and>
      27397 \<le> r_E (records ! 1824) \<and> r_E (records ! 1824) \<le> 328767 \<and>
      0 < r_P (records ! 1824) \<and> r_C (records ! 1824) \<le> 1000000000)"
proof -
  have h0: "(0::nat) < 1825" and h1: "(1824::nat) < 1825"
    by simp_all
  obtain rs1 where rs1: "run_simulation zero_seeded example_cal example_args = Inr rs1"
    using bear_run_returns [of example_args] by (auto simp: example_args_def)
  obtain rs2 where rs2: "run_simulation zero_seeded example_cal static_args = Inr rs2"
    using bear_run_returns [of static_args] by (auto simp: static_args_def example_args_def)
  show ?thesis
    using h0 h1 rs1 rs2 run_invariants [OF h0 rs1] run_invariants [OF h1 rs2]
    by blast
qed

section \<open>Operators over a run\<close>






























































section \<open>The rank-consistency verdict\<close>

lemma count_list_replicate: "count_list (replicate n x) v = (if v = x then n else 0)"
  by (induction n) auto

lemma two_block_counts:
  assumes "x \<noteq> y"
  shows "map (count_list (replicate a x @ replicate b y)) (replicate a x @ replicate b y)
           = replicate a a @ replicate b b"
  using assms by (simp add: count_list_replicate map_replicate_const)

lemma modal_rank_two_blocks:
  assumes "x \<noteq> y" "0 < b" "b < a"
  shows "modal_rank (replicate a x @ replicate b y) = x"
proof -
  let ?col = "replicate a x @ replicate b y"
  have m: "Max (set (map (count_list ?col) ?col)) = a"
  proof -
    have "set (replicate a a @ replicate b b) = {a, b}" using assms by auto
    then have "Max (set (map (count_list ?col) ?col)) = Max {a, b}"
      by (simp only: two_block_counts [OF assms(1)])
    then show ?thesis using assms by simp
  qed
  have f: "filter (\<lambda>v. count_list ?col v = a) ?col = replicate a x"
    using assms by (auto simp: count_list_replicate)
  have "modal_rank ?col = Min (set (replicate a x))"
    unfolding modal_rank_def Let_def m f ..
  then show ?thesis using assms by simp
qed

lemma consistency_two_blocks:
  assumes "x \<noteq> y" "0 < b" "b < a"
  shows "consistency (replicate a x @ replicate b y) = real a / real (a + b)"
proof -
  have "filter (\<lambda>r. r = x) (replicate a x @ replicate b y) = replicate a x"
    using assms by auto
  then show ?thesis
    unfolding consistency_def modal_rank_two_blocks [OF assms] by simp
qed

lemma upt_5: "[0 ..< 5] = [0, 1, 2, 3, 4::nat]"
  by code_simp

lemma split_table_ranks:
  "map rank_row split_table = replicate 18 [1, 2, 3, 4, 5] @ replicate 12 [2, 1, 5, 3, 4]"
  by (simp add: split_table_def rank_row_def)

lemma split_table_min_consistency: "min_consistency split_table = 3 / 5"
  by (simp add: min_consistency_def split_table_ranks columns_of_def ki_values_def upt_5
        consistency_two_blocks)

lemma structural_iff:
  "rank_verdict table = STRUCTURAL \<longleftrightarrow>
     (\<forall>c < 5. 0.6 < consistency (map (\<lambda>r. r ! c) (map rank_row table)))"
proof -
  let ?cols = "columns_of (map rank_row table)"
  have len: "length ki_values = 5"
    by (simp add: ki_values_def)
  have cols: "set (map consistency ?cols) =
      (\<lambda>c. consistency (map (\<lambda>r. r ! c) (map rank_row table))) ` {0 ..< 5}"
    unfolding columns_of_def len by (simp only: set_map set_upt image_image)
  have ne: "set (map consistency ?cols) \<noteq> {}"
    unfolding cols by simp
  have "rank_verdict table = STRUCTURAL \<longleftrightarrow> 0.6 < Min (set (map consistency ?cols))"
    by (simp add: rank_verdict_def min_consistency_def)
  also have "\<dots> \<longleftrightarrow> (\<forall>x \<in> set (map consistency ?cols). 0.6 < x)"
    using ne by (subst Min_gr_iff) simp_all
  also have "\<dots> \<longleftrightarrow> (\<forall>c < 5. 0.6 < consistency (map (\<lambda>r. r ! c) (map rank_row table)))"
    unfolding cols by auto
  finally show ?thesis .
qed

lemma first_error_none: "\<forall>x \<in> set xs. \<exists>v. x = Inr v \<Longrightarrow> first_error xs = None"
proof (induction xs)
  case Nil
  then show ?case by simp
next
  case (Cons x xs)
  then obtain v where "x = Inr v" by auto
  with Cons show ?case by simp
qed

lemma ki_final_N_returns: "\<exists>n. ki_final_N default_rng cal k sd = Inr n"
proof -
  obtain records where "run_simulation default_rng cal
        \<lparr>arg_scenario_name = ''bear'', arg_scenario = bear, arg_use_pid = True, arg_seed = sd,
         arg_kp = Some KP_NORM, arg_ki = Some k, arg_kd = Some KD_NORM,
         arg_slash_downtime = None, arg_slash_fraud = None\<rparr> = Inr records"
    using bear_run_returns by force
  then show ?thesis by (simp add: ki_final_N_def)
qed

lemma ki_harness_returns:
  "ki_nonmonotonicity_test default_rng cal =
     Inr (rank_verdict (pivot (\<lambda>k sd. projr (ki_final_N default_rng cal k sd))))"
proof -
  have "first_error (concat (map (\<lambda>k. map (\<lambda>seed_offset.
            ki_final_N default_rng cal k (BASE_SEED + int seed_offset)) [0 ..< N_SEEDS])
          ki_values)) = None"
    by (rule first_error_none) (auto simp: ki_final_N_returns)
  then show ?thesis
    by (simp add: ki_nonmonotonicity_test_def Let_def)
qed

text \<open>
  C6, as amended.  The harness ranks the Ki values within each seed, takes per Ki value the
  fraction of seeds whose rank equals the modal rank, and prints STRUCTURAL exactly when
  that fraction is strictly greater than 0.6 for every Ki value; when some Ki value has a
  fraction of 0.6 or less it prints PATH-DEPENDENT.  No run of the harness raises.
\<close>

theorem rank_verdict_threshold:
  "(rank_verdict table = STRUCTURAL \<longleftrightarrow>
      (\<forall>c < 5. 0.6 < consistency (map (\<lambda>r. r ! c) (map rank_row table)))) \<and>
   (rank_verdict table = PATH_DEPENDENT \<longleftrightarrow>
      (\<exists>c < 5. consistency (map (\<lambda>r. r ! c) (map rank_row table)) \<le> 0.6)) \<and>
   ki_nonmonotonicity_test default_rng cal =
     Inr (rank_verdict (pivot (\<lambda>k sd. projr (ki_final_N default_rng cal k sd))))"
proof -
  have "rank_verdict table = PATH_DEPENDENT \<longleftrightarrow> rank_verdict table \<noteq> STRUCTURAL"
    by (cases "rank_verdict table") simp_all
  then show ?thesis
    unfolding structural_iff ki_harness_returns by (auto simp: not_less)
qed

theorem rank_verdict_threshold_witness:
  "rank_verdict split_table = PATH_DEPENDENT \<and>
   (\<exists>c < 5. consistency (map (\<lambda>r. r ! c) (map rank_row split_table)) \<le> 0.6)"
proof -
  have "rank_verdict split_table = PATH_DEPENDENT"
    by (simp add: rank_verdict_def split_table_min_consistency)
  then show ?thesis
    using rank_verdict_threshold [of split_table zero_seeded example_cal] by simp
qed

theorem rank_verdict_boundary_counterexample:
  "min_consistency split_table \<ge> 0.6 \<and> rank_verdict split_table \<noteq> STRUCTURAL"
  by (simp add: rank_verdict_def split_table_min_consistency)

end
